theory Spec2Isabelle
  imports Main "HOL-Library.Sublist"
begin

section \<open>Data model of cacaluploader.py\<close>

text \<open>
  A naive \<^verbatim>\<open>datetime\<close> is a point on a line, counted here in microseconds (the
  resolution of the class). Naive datetimes are totally ordered, and adding a
  \<^verbatim>\<open>timedelta\<close> is addition. The year range of the class (1 to 9999) is not
  modelled: \<^verbatim>\<open>datetime.today()\<close> is the clock of the machine.
\<close>

type_synonym datetime = int

definition timedelta_weeks :: "int \<Rightarrow> int" where
  "timedelta_weeks w = w * 604800000000"

text \<open>
  Exceptions. \<^verbatim>\<open>requests.RequestException\<close> carries which of its subclasses was
  raised; the five \<^verbatim>\<open>caldav.error\<close> classes are siblings below \<^verbatim>\<open>DAVError\<close>;
  \<^verbatim>\<open>NoOptionError\<close> and \<^verbatim>\<open>NoSectionError\<close> are siblings below
  \<^verbatim>\<open>ConfigParser.Error\<close>.
\<close>

datatype requests_error = ConnectionError | HTTPError nat | Timeout | TooManyRedirects

datatype error =
    ValueError string
  | IndexError
  | KeyError string
  | RequestException requests_error
  | CampusOfficeAuthorizationError
  | AuthorizationError
  | NotFoundError string
  | ReportError
  | DeleteError
  | PutError
  | NoOptionError string string
  | NoSectionError string
  | OtherException string

text \<open>The parsed iCalendar document: its top-level components, each of one class.\<close>

datatype component =
    Event string
  | Todo string
  | Journal string
  | FreeBusy string
  | Timezone string
  | Alarm string
  | Component string string

datatype ical_calendar = Calendar (subcomponents: "component list")

fun isinstance_Event :: "component \<Rightarrow> bool" where
  "isinstance_Event (Event _) = True"
| "isinstance_Event _ = False"

text \<open>Objects of the CalDAV library: a calendar of the principal, an event in it.\<close>

datatype calendar = CaldavCalendar (cal_url: string) (cal_name: string)

datatype remote_event = CaldavEvent string

text \<open>What \<^verbatim>\<open>requests\<close> returns: the final response and the redirects before it.\<close>

record response =
  status_code :: nat
  history :: "(string \<rightharpoonup> string) list"
  body_text :: string

text \<open>The addresses below \<^verbatim>\<open>_campus_base_url\<close>; the export address carries the window.\<close>

datatype url = BaseUrl | LoginUrl | CalUrl datetime datetime | LogoutUrl

datatype level = INFO | ERROR

datatype log_arg = N nat | E error

text \<open>
  Everything a run does that can be seen from outside, in the order it happens: log
  lines, requests to CampusOffice, parsing, and calls on the CalDAV calendar.
\<close>

datatype action =
    Log level string "log_arg list"
  | SessionGet url
  | SessionPost url "(string \<times> string) list"
  | FromIcal string
  | PrincipalConnect string string string
  | PrincipalCalendars
  | DateSearch calendar "datetime option" "datetime option"
  | EventDelete remote_event
  | AddEvent calendar string
  | ConfigRead string

text \<open>
  The collaborators, as the answers they give. A run asks each CampusOffice address once;
  the i-th deletion and the i-th insertion of a run may each fail on their own.
\<close>

type_synonym config = "string \<rightharpoonup> (string \<rightharpoonup> string)"

record world =
  session_get :: "url \<Rightarrow> requests_error + response"
  session_post :: "url \<Rightarrow> (string \<times> string) list \<Rightarrow> requests_error + response"
  from_ical :: "string \<Rightarrow> error + ical_calendar"
  to_ical :: "ical_calendar \<Rightarrow> string"
  principal_connect :: "string \<Rightarrow> string \<Rightarrow> string \<Rightarrow> error option"
  principal_calendars :: "error + calendar list"
  date_search :: "calendar \<Rightarrow> datetime option \<Rightarrow> datetime option \<Rightarrow> error + remote_event list"
  event_delete :: "nat \<Rightarrow> remote_event \<Rightarrow> error option"
  add_event :: "nat \<Rightarrow> calendar \<Rightarrow> string \<Rightarrow> error option"
  config_read :: "string \<Rightarrow> error + config"
  strptime :: "string \<Rightarrow> string \<Rightarrow> error + datetime"
  today :: datetime

section \<open>The time window of CampusCalendarUploader\<close>

record uploader =
  priv_start_time :: "datetime option"
  priv_end_time :: "datetime option"
  matriculation_number :: string
  campus_password :: string
  calendar_url :: string
  calendar_user :: string
  calendar_pass :: string

definition start_time :: "uploader \<Rightarrow> datetime option" where
  "start_time self = priv_start_time self"

definition end_time :: "uploader \<Rightarrow> datetime option" where
  "end_time self = priv_end_time self"

definition set_start_time :: "uploader \<Rightarrow> datetime \<Rightarrow> error + uploader" where
  "set_start_time self start =
     (case end_time self of
        None \<Rightarrow> Inr (self\<lparr>priv_end_time := Some start, priv_start_time := Some start\<rparr>)
      | Some e \<Rightarrow>
          if e < start then Inl (ValueError ''Start of time period is after end'')
          else Inr (self\<lparr>priv_start_time := Some start\<rparr>))"

definition set_end_time :: "uploader \<Rightarrow> datetime \<Rightarrow> error + uploader" where
  "set_end_time self end =
     (case start_time self of
        None \<Rightarrow> Inr (self\<lparr>priv_start_time := Some end, priv_end_time := Some end\<rparr>)
      | Some s \<Rightarrow>
          if s > end then Inl (ValueError ''End of time period is before start'')
          else Inr (self\<lparr>priv_end_time := Some end\<rparr>))"

definition init ::
  "datetime \<Rightarrow> string \<Rightarrow> string \<Rightarrow> string \<Rightarrow> string \<Rightarrow> string \<Rightarrow>
   datetime option \<Rightarrow> datetime option \<Rightarrow> error + uploader" where
  "init today_now mat_number campus_pass url user pass start end =
     (let self = \<lparr>priv_start_time = Some (today_now + timedelta_weeks (- 1)),
                  priv_end_time = Some (today_now + timedelta_weeks 27),
                  matriculation_number = mat_number,
                  campus_password = campus_pass,
                  calendar_url = url,
                  calendar_user = user,
                  calendar_pass = pass\<rparr>
      in if start \<noteq> None \<and> end \<noteq> None then
           (case set_start_time self (the start) of
              Inl err \<Rightarrow> Inl err
            | Inr self' \<Rightarrow> set_end_time self' (the end))
         else if (start = None) \<noteq> (end = None) then
           Inl (ValueError ''Can not upload calendar with only one time period boundary'')
         else Inr self)"

text \<open>Assignments to the two properties from outside, one after the other.\<close>

datatype assignment = AssignStart datetime | AssignEnd datetime

fun assign :: "uploader \<Rightarrow> assignment \<Rightarrow> error + uploader" where
  "assign self (AssignStart x) = set_start_time self x"
| "assign self (AssignEnd x) = set_end_time self x"

fun assign_all :: "uploader \<Rightarrow> assignment list \<Rightarrow> error + uploader" where
  "assign_all self [] = Inr self"
| "assign_all self (a # as) =
     (case assign self a of Inl err \<Rightarrow> Inl err | Inr self' \<Rightarrow> assign_all self' as)"

section \<open>Running against the collaborators\<close>

text \<open>
  A step returns its value or the exception it raised, together with what it did. After
  an exception nothing more is done: the exception and the actions so far are the result.
\<close>

type_synonym 'a run = "(error + 'a) \<times> action list"

fun then_do :: "'a run \<Rightarrow> ('a \<Rightarrow> 'b run) \<Rightarrow> 'b run" where
  "then_do (Inl err, t) f = (Inl err, t)"
| "then_do (Inr x, t) f = (case f x of (r, t') \<Rightarrow> (r, t @ t'))"

definition ret :: "'a \<Rightarrow> 'a run" where
  "ret x = (Inr x, [])"

definition raise :: "error \<Rightarrow> 'a run" where
  "raise err = (Inl err, [])"

definition log_info :: "string \<Rightarrow> log_arg list \<Rightarrow> unit run" where
  "log_info msg args = (Inr (), [Log INFO msg args])"

definition http_get :: "world \<Rightarrow> url \<Rightarrow> response run" where
  "http_get w u =
     (case session_get w u of
        Inl err \<Rightarrow> (Inl (RequestException err), [SessionGet u])
      | Inr req \<Rightarrow> (Inr req, [SessionGet u]))"

definition http_post :: "world \<Rightarrow> url \<Rightarrow> (string \<times> string) list \<Rightarrow> response run" where
  "http_post w u values =
     (case session_post w u values of
        Inl err \<Rightarrow> (Inl (RequestException err), [SessionPost u values])
      | Inr req \<Rightarrow> (Inr req, [SessionPost u values]))"

definition raise_for_status :: "response \<Rightarrow> unit run" where
  "raise_for_status req =
     (if 400 \<le> status_code req \<and> status_code req < 600
      then raise (RequestException (HTTPError (status_code req)))
      else ret ())"

text \<open>Python's \<^verbatim>\<open>sub in s\<close> on strings.\<close>

fun startswith :: "string \<Rightarrow> string \<Rightarrow> bool" where
  "startswith s [] = True"
| "startswith [] (c # sub) = False"
| "startswith (d # s) (c # sub) = (d = c \<and> startswith s sub)"

fun str_contains :: "string \<Rightarrow> string \<Rightarrow> bool" where
  "str_contains sub [] = (sub = [])"
| "str_contains sub (d # s) = (startswith (d # s) sub \<or> str_contains sub s)"

text \<open>\<^verbatim>\<open>if 'loginfailed' in req.history[0].headers['location']\<close>\<close>

definition check_login :: "response \<Rightarrow> unit run" where
  "check_login req =
     (case history req of
        [] \<Rightarrow> raise IndexError
      | headers # _ \<Rightarrow>
          (case headers ''location'' of
             None \<Rightarrow> raise (KeyError ''location'')
           | Some location \<Rightarrow>
               if str_contains ''loginfailed'' location
               then raise CampusOfficeAuthorizationError
               else ret ()))"

text \<open>
  \<^verbatim>\<open>_campus_cal_url.format(start=self.start_time, end=self.end_time)\<close>: a bound that
  is \<^verbatim>\<open>None\<close> does not take the date format.
\<close>

definition format_cal_url :: "datetime option \<Rightarrow> datetime option \<Rightarrow> url run" where
  "format_cal_url start end =
     (case (start, end) of
        (Some s, Some e) \<Rightarrow> ret (CalUrl s e)
      | _ \<Rightarrow> raise (ValueError ''Invalid conversion specification''))"

definition parse_ical :: "world \<Rightarrow> string \<Rightarrow> ical_calendar run" where
  "parse_ical w txt = (from_ical w txt, [FromIcal txt])"

definition retrieve_source_calendar :: "world \<Rightarrow> uploader \<Rightarrow> ical_calendar run" where
  "retrieve_source_calendar w self =
     then_do (log_info ''Fetch base page for session cookie'' []) (\<lambda>_.
     then_do (http_get w BaseUrl) (\<lambda>req.
     then_do (raise_for_status req) (\<lambda>_.
     then_do (log_info ''Validate session by logging in'' []) (\<lambda>_.
     then_do (http_post w LoginUrl
                [(''u'', matriculation_number self), (''p'', campus_password self)]) (\<lambda>req.
     then_do (raise_for_status req) (\<lambda>_.
     then_do (check_login req) (\<lambda>_.
     then_do (log_info ''Retrieve calendar'' []) (\<lambda>_.
     then_do (format_cal_url (start_time self) (end_time self)) (\<lambda>u.
     then_do (http_get w u) (\<lambda>req.
     then_do (raise_for_status req) (\<lambda>_.
     then_do (log_info ''Invalidating session by logging out'' []) (\<lambda>_.
     then_do (http_get w LogoutUrl) (\<lambda>_.
     then_do (log_info ''Parse calendar'' []) (\<lambda>_.
     parse_ical w (body_text req)))))))))))))))"

text \<open>
  \<^verbatim>\<open>caldav.Principal(caldav.DAVClient(url, username, password))\<close>: the connection
  to the destination, which may be refused.
\<close>

definition connect_principal :: "world \<Rightarrow> uploader \<Rightarrow> unit run" where
  "connect_principal w self =
     (case principal_connect w (calendar_url self) (calendar_user self) (calendar_pass self) of
        Some err \<Rightarrow> Inl err
      | None \<Rightarrow> Inr (),
      [PrincipalConnect (calendar_url self) (calendar_user self) (calendar_pass self)])"

definition list_calendars :: "world \<Rightarrow> calendar list run" where
  "list_calendars w = (principal_calendars w, [PrincipalCalendars])"

text \<open>\<^verbatim>\<open>for c in ...: if str(c.url) == self.calendar_url: return c\<close>, then the raise.\<close>

fun search_calendar :: "string \<Rightarrow> calendar list \<Rightarrow> calendar run" where
  "search_calendar target [] = raise (NotFoundError ''Could not find calendar with given url'')"
| "search_calendar target (c # cs) =
     (if cal_url c = target then ret c else search_calendar target cs)"

definition retrieve_upload_calendar :: "world \<Rightarrow> uploader \<Rightarrow> calendar run" where
  "retrieve_upload_calendar w self =
     then_do (connect_principal w self) (\<lambda>_.
     then_do (log_info ''Search for caldav calendar'' []) (\<lambda>_.
     then_do (list_calendars w) (\<lambda>cs.
     search_calendar (calendar_url self) cs)))"

definition do_date_search ::
  "world \<Rightarrow> calendar \<Rightarrow> datetime option \<Rightarrow> datetime option \<Rightarrow> remote_event list run" where
  "do_date_search w c start end = (date_search w c start end, [DateSearch c start end])"

definition do_delete :: "world \<Rightarrow> nat \<Rightarrow> remote_event \<Rightarrow> unit run" where
  "do_delete w i ev =
     (case event_delete w i ev of
        Some err \<Rightarrow> (Inl err, [EventDelete ev])
      | None \<Rightarrow> (Inr (), [EventDelete ev]))"

definition do_add_event :: "world \<Rightarrow> nat \<Rightarrow> calendar \<Rightarrow> string \<Rightarrow> unit run" where
  "do_add_event w i c ical =
     (case add_event w i c ical of
        Some err \<Rightarrow> (Inl err, [AddEvent c ical])
      | None \<Rightarrow> (Inr (), [AddEvent c ical]))"

text \<open>\<^verbatim>\<open>for i, ev in enumerate(old_events)\<close>, from index \<open>i\<close> on.\<close>

fun delete_loop :: "world \<Rightarrow> nat \<Rightarrow> nat \<Rightarrow> remote_event list \<Rightarrow> unit run" where
  "delete_loop w n i [] = ret ()"
| "delete_loop w n i (ev # evs) =
     then_do (log_info ''Delete event {index}/{num}'' [N (i + 1), N n]) (\<lambda>_.
     then_do (do_delete w i ev) (\<lambda>_.
     delete_loop w n (i + 1) evs))"

text \<open>\<^verbatim>\<open>for i, ev in enumerate(events)\<close>, from index \<open>i\<close> on.\<close>

fun upload_loop :: "world \<Rightarrow> calendar \<Rightarrow> nat \<Rightarrow> nat \<Rightarrow> component list \<Rightarrow> unit run" where
  "upload_loop w upload_cal n i [] = ret ()"
| "upload_loop w upload_cal n i (ev # evs) =
     then_do (log_info ''Upload event {index}/{num}'' [N (i + 1), N n]) (\<lambda>_.
     then_do (do_add_event w i upload_cal (to_ical w (Calendar [ev]))) (\<lambda>_.
     upload_loop w upload_cal n (i + 1) evs))"

definition upload_events :: "world \<Rightarrow> uploader \<Rightarrow> calendar \<Rightarrow> component list \<Rightarrow> unit run" where
  "upload_events w self upload_cal events =
     then_do (log_info ''Delete all existing events in given time period'' []) (\<lambda>_.
     then_do (do_date_search w upload_cal (start_time self) (end_time self)) (\<lambda>old_events.
     then_do (delete_loop w (length old_events) 0 old_events) (\<lambda>_.
     then_do (log_info ''Upload all events'' []) (\<lambda>_.
     upload_loop w upload_cal (length events) 0 events))))"

text \<open>
  \<^verbatim>\<open>filter(lambda x: isinstance(x, icalendar.Event), source_cal.subcomponents)\<close>;
  the script is Python 2, where \<^verbatim>\<open>filter\<close> returns a list.
\<close>

definition source_events :: "ical_calendar \<Rightarrow> component list" where
  "source_events source_cal = filter isinstance_Event (subcomponents source_cal)"

definition upload :: "world \<Rightarrow> uploader \<Rightarrow> unit run" where
  "upload w self =
     then_do (retrieve_source_calendar w self) (\<lambda>source_cal.
     then_do (retrieve_upload_calendar w self) (\<lambda>upload_cal.
     upload_events w self upload_cal (source_events source_cal)))"

section \<open>The script\<close>

definition config_get :: "config \<Rightarrow> string \<Rightarrow> string \<Rightarrow> string run" where
  "config_get cfg section option =
     (case cfg section of
        None \<Rightarrow> raise (NoSectionError section)
      | Some opts \<Rightarrow>
          (case opts option of
             None \<Rightarrow> raise (NoOptionError option section)
           | Some v \<Rightarrow> ret v))"

definition do_config_read :: "world \<Rightarrow> string \<Rightarrow> config run" where
  "do_config_read w config_file = (config_read w config_file, [ConfigRead config_file])"

definition do_strptime :: "world \<Rightarrow> string \<Rightarrow> string \<Rightarrow> datetime run" where
  "do_strptime w s fmt = (strptime w s fmt, [])"

definition read_period :: "world \<Rightarrow> config \<Rightarrow> (datetime option \<times> datetime option) run" where
  "read_period w cfg =
     (if cfg ''Period'' \<noteq> None then
        then_do (config_get cfg ''Period'' ''start'') (\<lambda>s.
        then_do (do_strptime w s ''%Y-%m-%d'') (\<lambda>start.
        then_do (config_get cfg ''Period'' ''end'') (\<lambda>e.
        then_do (do_strptime w e ''%Y-%m-%d'') (\<lambda>end.
        ret (Some start, Some end)))))
      else ret (None, None))"

definition construct ::
  "world \<Rightarrow> string \<Rightarrow> string \<Rightarrow> string \<Rightarrow> string \<Rightarrow> string \<Rightarrow>
   datetime option \<Rightarrow> datetime option \<Rightarrow> uploader run" where
  "construct w mat_number campus_pass url user pass start end =
     (init (today w) mat_number campus_pass url user pass start end, [])"

text \<open>The body of the \<^verbatim>\<open>try\<close> statement.\<close>

definition main_try :: "world \<Rightarrow> string \<Rightarrow> unit run" where
  "main_try w config_file =
     then_do (do_config_read w config_file) (\<lambda>cfg.
     then_do (config_get cfg ''CampusOffice'' ''mat'') (\<lambda>mat_number.
     then_do (config_get cfg ''CampusOffice'' ''pass'') (\<lambda>campus_pass.
     then_do (config_get cfg ''CalDAV'' ''url'') (\<lambda>url.
     then_do (config_get cfg ''CalDAV'' ''user'') (\<lambda>user.
     then_do (config_get cfg ''CalDAV'' ''pass'') (\<lambda>pass.
     then_do (read_period w cfg) (\<lambda>(start, end).
     then_do (construct w mat_number campus_pass url user pass start end) (\<lambda>uploader.
     upload w uploader))))))))"

text \<open>
  The \<^verbatim>\<open>except\<close> clauses in their order: the line each logs, or nothing when no
  clause matches and the exception leaves the script.
\<close>

fun except_clauses :: "error \<Rightarrow> action option" where
  "except_clauses (NoOptionError opt sec) =
     Some (Log ERROR ''Could not load config from file: %s'' [E (NoOptionError opt sec)])"
| "except_clauses (RequestException r) =
     Some (Log ERROR ''Could not retrieve CampusOffice calendar: %s'' [E (RequestException r)])"
| "except_clauses CampusOfficeAuthorizationError =
     Some (Log ERROR ''Could not retrieve CampusOffice calendar: %s''
             [E CampusOfficeAuthorizationError])"
| "except_clauses AuthorizationError =
     Some (Log ERROR ''Could not access CalDAV calendar: Authorization failed'' [])"
| "except_clauses (NotFoundError m) =
     Some (Log ERROR ''Could not find CalDAV calendar'' [])"
| "except_clauses ReportError =
     Some (Log ERROR
             ''Could not retrieve list of already existing events in CalDAV calendar'' [])"
| "except_clauses DeleteError =
     Some (Log ERROR ''Could not remove already existing event in CalDAV calendar'' [])"
| "except_clauses PutError =
     Some (Log ERROR ''Could not upload new event to CalDAV calendar'' [])"
| "except_clauses (ValueError m) =
     Some (Log ERROR ''Could not parse time period: %s'' [E (ValueError m)])"
| "except_clauses _ = None"

text \<open>
  A run of the script: the exception that leaves it (\<open>None\<close> when it ends by itself) and
  what it did.
\<close>

definition main :: "world \<Rightarrow> string list \<Rightarrow> error option \<times> action list" where
  "main w argv =
     (if length argv \<noteq> 2 then
        (None, [Log ERROR ''Error: Incorrect use!'' [],
                Log INFO '' cacaluploader.py <config-file>'' []])
      else
        (case main_try w (argv ! 1) of
           (Inr _, t) \<Rightarrow> (None, t)
         | (Inl err, t) \<Rightarrow>
             (case except_clauses err of
                Some line \<Rightarrow> (None, t @ [line])
              | None \<Rightarrow> (Some err, t))))"

text \<open>The actions that reach the network, and those that change the destination.\<close>

fun is_network :: "action \<Rightarrow> bool" where
  "is_network (SessionGet _) = True"
| "is_network (SessionPost _ _) = True"
| "is_network (PrincipalConnect _ _ _) = True"
| "is_network PrincipalCalendars = True"
| "is_network (DateSearch _ _ _) = True"
| "is_network (EventDelete _) = True"
| "is_network (AddEvent _ _) = True"
| "is_network _ = False"

fun is_delete :: "action \<Rightarrow> bool" where
  "is_delete (EventDelete _) = True"
| "is_delete _ = False"

fun is_insert :: "action \<Rightarrow> bool" where
  "is_insert (AddEvent _ _) = True"
| "is_insert _ = False"

definition is_mutation :: "action \<Rightarrow> bool" where
  "is_mutation a = (is_delete a \<or> is_insert a)"

fun is_error_line :: "action \<Rightarrow> bool" where
  "is_error_line (Log ERROR _ _) = True"
| "is_error_line _ = False"

text \<open>The window of a constructed object: both bounds are there, in order.\<close>

definition window_ok :: "uploader \<Rightarrow> bool" where
  "window_ok self =
     (case (start_time self, end_time self) of
        (Some s, Some e) \<Rightarrow> s \<le> e
      | _ \<Rightarrow> False)"

text \<open>An action agrees with the window of the object when the bounds it carries are that window.\<close>

definition uses_window :: "uploader \<Rightarrow> action \<Rightarrow> bool" where
  "uses_window self a =
     (case a of
        SessionGet (CalUrl s e) \<Rightarrow> start_time self = Some s \<and> end_time self = Some e
      | DateSearch c s e \<Rightarrow> s = start_time self \<and> e = end_time self
      | _ \<Rightarrow> True)"

section \<open>A sample run\<close>

text \<open>
  A CampusOffice that accepts the login and exports four components, two of them events,
  and a destination with three calendars and three events in the window.
\<close>

definition ok_page :: response where
  "ok_page = \<lparr>status_code = 200, history = [], body_text = []\<rparr>"

definition export_page :: response where
  "export_page = \<lparr>status_code = 200, history = [], body_text = ''BEGIN:VCALENDAR''\<rparr>"

definition login_redirect :: "nat \<Rightarrow> string \<Rightarrow> response" where
  "login_redirect code location =
     \<lparr>status_code = code, history = [Map.empty(''location'' \<mapsto> location)], body_text = []\<rparr>"

definition sample_calendar :: ical_calendar where
  "sample_calendar =
     Calendar [Timezone ''Europe/Berlin'', Event ''Analysis'', Alarm ''reminder'',
               Event ''Algebra'']"

fun payload :: "component \<Rightarrow> string" where
  "payload (Event s) = s"
| "payload (Todo s) = s"
| "payload (Journal s) = s"
| "payload (FreeBusy s) = s"
| "payload (Timezone s) = s"
| "payload (Alarm s) = s"
| "payload (Component n s) = s"

definition sample_config :: config where
  "sample_config =
     [''CampusOffice'' \<mapsto> [''mat'' \<mapsto> ''123456'', ''pass'' \<mapsto> ''secret''],
      ''CalDAV'' \<mapsto> [''url'' \<mapsto> ''https://x/cal/42'', ''user'' \<mapsto> ''user'',
                     ''pass'' \<mapsto> ''pw'']]"

definition sample_world :: world where
  "sample_world =
     \<lparr>session_get = (\<lambda>u. case u of CalUrl s e \<Rightarrow> Inr export_page | _ \<Rightarrow> Inr ok_page),
      session_post = (\<lambda>u values. Inr (login_redirect 200 ''/office/default.asp'')),
      from_ical = (\<lambda>txt. Inr sample_calendar),
      to_ical = (\<lambda>cal. concat (map payload (subcomponents cal))),
      principal_connect = (\<lambda>url user pass. None),
      principal_calendars =
        Inr [CaldavCalendar ''https://x/cal/41'' ''private'',
             CaldavCalendar ''https://x/cal/42'' ''lectures'',
             CaldavCalendar ''https://x/cal/42'' ''copy''],
      date_search =
        (\<lambda>c start end. Inr [CaldavEvent ''old-1'', CaldavEvent ''old-2'', CaldavEvent ''old-3'']),
      event_delete = (\<lambda>i ev. None),
      add_event = (\<lambda>i c ical. None),
      config_read = (\<lambda>config_file. Inr sample_config),
      strptime = (\<lambda>s fmt. Inl (ValueError ''time data does not match format'')),
      today = 0\<rparr>"

definition sample_uploader :: uploader where
  "sample_uploader =
     \<lparr>priv_start_time = Some 10, priv_end_time = Some 20,
      matriculation_number = ''123456'', campus_password = ''secret'',
      calendar_url = ''https://x/cal/42'', calendar_user = ''user'', calendar_pass = ''pw''\<rparr>"

definition lectures :: calendar where
  "lectures = CaldavCalendar ''https://x/cal/42'' ''lectures''"

text \<open>The same run with a destination that refuses the second deletion.\<close>

definition second_delete_fails :: world where
  "second_delete_fails =
     sample_world\<lparr>event_delete := (\<lambda>i ev. if i = 1 then Some DeleteError else None)\<rparr>"

text \<open>The same run with a destination that cannot list the events of the window.\<close>

definition report_fails :: world where
  "report_fails = sample_world\<lparr>date_search := (\<lambda>c start end. Inl ReportError)\<rparr>"

text \<open>A principal whose calendars are the two of the example, neither at the target.\<close>

definition no_such_calendar :: world where
  "no_such_calendar =
     sample_world\<lparr>principal_calendars :=
       Inr [CaldavCalendar ''https://x/cal/41'' ''a'', CaldavCalendar ''https://x/cal/43'' ''b'']\<rparr>"

text \<open>A login that is refused: the redirect goes to the page that says so.\<close>

definition login_refused :: world where
  "login_refused =
     sample_world\<lparr>session_post :=
       (\<lambda>u values. Inr (login_redirect 200 ''/office/default.asp?loginfailed=1''))\<rparr>"

text \<open>The same refusal, where the page the redirect leads to answers with status 500.\<close>

definition login_refused_500 :: world where
  "login_refused_500 =
     sample_world\<lparr>session_post :=
       (\<lambda>u values. Inr (login_redirect 500 ''/office/default.asp?loginfailed=1''))\<rparr>"

text \<open>A CampusOffice whose logout page answers with status 500.\<close>

definition logout_500 :: world where
  "logout_500 =
     sample_world\<lparr>session_get :=
       (\<lambda>u. case u of
              CalUrl s e \<Rightarrow> Inr export_page
            | LogoutUrl \<Rightarrow> Inr \<lparr>status_code = 500, history = [], body_text = []\<rparr>
            | _ \<Rightarrow> Inr ok_page)\<rparr>"

text \<open>A CampusOffice that cannot be reached any more when the logout is sent.\<close>

definition logout_down :: world where
  "logout_down =
     sample_world\<lparr>session_get :=
       (\<lambda>u. case u of
              CalUrl s e \<Rightarrow> Inr export_page
            | LogoutUrl \<Rightarrow> Inl ConnectionError
            | _ \<Rightarrow> Inr ok_page)\<rparr>"

text \<open>A configuration file without the section \<^verbatim>\<open>[CampusOffice]\<close>.\<close>

definition no_campus_section :: world where
  "no_campus_section =
     sample_world\<lparr>config_read :=
       (\<lambda>config_file.
          Inr [''CalDAV'' \<mapsto> [''url'' \<mapsto> ''https://x/cal/42'', ''user'' \<mapsto> ''user'',
                              ''pass'' \<mapsto> ''pw'']])\<rparr>"

text \<open>A configuration file whose section \<^verbatim>\<open>[CampusOffice]\<close> has no \<^verbatim>\<open>pass\<close>.\<close>

definition no_campus_pass :: world where
  "no_campus_pass =
     sample_world\<lparr>config_read :=
       (\<lambda>config_file.
          Inr [''CampusOffice'' \<mapsto> [''mat'' \<mapsto> ''123456''],
               ''CalDAV'' \<mapsto> [''url'' \<mapsto> ''https://x/cal/42'', ''user'' \<mapsto> ''user'',
                              ''pass'' \<mapsto> ''pw'']])\<rparr>"

text \<open>The same refusal again, with status 503 on the page the redirect leads to.\<close>

definition login_refused_503 :: world where
  "login_refused_503 =
     sample_world\<lparr>session_post :=
       (\<lambda>u values. Inr (login_redirect 503 ''/office/default.asp?loginfailed=1''))\<rparr>"

section \<open>Construction and the window\<close>

lemma init_one_bound:
  "(start = None) \<noteq> (end = None) \<Longrightarrow>
   init t m p u us pw start end =
     Inl (ValueError ''Can not upload calendar with only one time period boundary'')"
  by (auto simp: init_def)

lemma init_neither:
  "init t m p u us pw None None =
     Inr \<lparr>priv_start_time = Some (t + timedelta_weeks (- 1)),
          priv_end_time = Some (t + timedelta_weeks 27),
          matriculation_number = m, campus_password = p, calendar_url = u,
          calendar_user = us, calendar_pass = pw\<rparr>"
  by (simp add: init_def)

text \<open>
  With both bounds given, the start is assigned while the end is still the default one,
  27 weeks after today, and is checked against it.
\<close>

lemma init_both:
  "init t m p u us pw (Some s) (Some e) =
     (if t + timedelta_weeks 27 < s then Inl (ValueError ''Start of time period is after end'')
      else if s > e then Inl (ValueError ''End of time period is before start'')
      else Inr \<lparr>priv_start_time = Some s, priv_end_time = Some e,
                matriculation_number = m, campus_password = p, calendar_url = u,
                calendar_user = us, calendar_pass = pw\<rparr>)"
  by (simp add: init_def set_start_time_def set_end_time_def start_time_def end_time_def)

text \<open>
  C4. Constructing with exactly one bound raises ValueError (\<open>init_one_bound\<close>) and
  constructing with neither does not raise (\<open>init_neither\<close>), but constructing with both
  bounds does raise for some pairs with start \<open>\<le>\<close> end: with today at 0, a start 28 weeks
  and an end 29 weeks from today, the constructor raises
  \<^verbatim>\<open>ValueError('Start of time period is after end')\<close>, because the start is compared
  with the default end. The docstring promises ValueError only when one bound is missing.
\<close>

theorem init_both_bounds_beyond_default_end:
  "timedelta_weeks 28 \<le> timedelta_weeks 29 \<and>
   init 0 ''123456'' ''secret'' ''https://x/cal/42'' ''user'' ''pw''
     (Some (timedelta_weeks 28)) (Some (timedelta_weeks 29)) =
   Inl (ValueError ''Start of time period is after end'')"
  by (simp add: init_both timedelta_weeks_def)

lemma init_window_ok:
  assumes "init t m p u us pw st en = Inr self"
  shows "window_ok self"
proof (cases st)
  case None
  note st = this
  show ?thesis
  proof (cases en)
    case None
    with st assms show ?thesis
      by (auto simp: init_def window_ok_def start_time_def end_time_def timedelta_weeks_def)
  next
    case (Some e)
    with st assms show ?thesis by (simp add: init_def)
  qed
next
  case (Some s)
  note st = this
  show ?thesis
  proof (cases en)
    case None
    with st assms show ?thesis by (simp add: init_def)
  next
    case (Some e)
    with st assms show ?thesis
      by (auto simp: init_both window_ok_def start_time_def end_time_def split: if_splits)
  qed
qed

lemma set_start_time_window_ok:
  "window_ok self \<Longrightarrow> set_start_time self x = Inr self' \<Longrightarrow> window_ok self'"
  by (auto simp: window_ok_def set_start_time_def start_time_def end_time_def
           split: option.splits if_splits)

lemma set_end_time_window_ok:
  "window_ok self \<Longrightarrow> set_end_time self x = Inr self' \<Longrightarrow> window_ok self'"
  by (auto simp: window_ok_def set_end_time_def start_time_def end_time_def
           split: option.splits if_splits)

lemma assign_window_ok:
  "window_ok self \<Longrightarrow> assign self a = Inr self' \<Longrightarrow> window_ok self'"
  by (cases a) (auto dest: set_start_time_window_ok set_end_time_window_ok)

lemma assign_all_window_ok:
  "window_ok self \<Longrightarrow> assign_all self as = Inr self' \<Longrightarrow> window_ok self'"
proof (induction as arbitrary: self)
  case Nil
  then show ?case by simp
next
  case (Cons a as)
  then show ?case
    by (auto split: sum.splits dest: assign_window_ok)
qed

text \<open>
  C5. An object that was constructed, after any sequence of successful assignments to
  \<^verbatim>\<open>start_time\<close> and \<^verbatim>\<open>end_time\<close>, has both bounds with start \<open>\<le>\<close> end. From there
  an assignment of a start after the end, or of an end before the start, raises the
  ValueError of the setter, and every other assignment succeeds and changes that bound only.
\<close>

theorem window_ordered:
  assumes "init t m p u us pw st en = Inr self"
    and "assign_all self as = Inr self'"
  shows "\<exists>s e. start_time self' = Some s \<and> end_time self' = Some e \<and> s \<le> e \<and>
           (\<forall>x. set_start_time self' x =
              (if e < x then Inl (ValueError ''Start of time period is after end'')
               else Inr (self'\<lparr>priv_start_time := Some x\<rparr>))) \<and>
           (\<forall>x. set_end_time self' x =
              (if x < s then Inl (ValueError ''End of time period is before start'')
               else Inr (self'\<lparr>priv_end_time := Some x\<rparr>)))"
proof -
  have "window_ok self'"
    using assms init_window_ok assign_all_window_ok by blast
  then obtain s e where se: "start_time self' = Some s" "end_time self' = Some e" "s \<le> e"
    by (auto simp: window_ok_def split: option.splits)
  then show ?thesis
    by (simp add: set_start_time_def set_end_time_def)
qed

theorem window_ordered_witness:
  "\<exists>self self'. init 0 ''m'' ''p'' ''u'' ''us'' ''pw'' (Some 5) (Some 9) = Inr self \<and>
     assign_all self [AssignStart 7, AssignEnd 8] = Inr self' \<and>
     start_time self' = Some 7 \<and> end_time self' = Some 8 \<and>
     set_start_time self' 9 = Inl (ValueError ''Start of time period is after end'') \<and>
     set_end_time self' 6 = Inl (ValueError ''End of time period is before start'')"
proof -
  define self where "self = \<lparr>priv_start_time = Some (5::int), priv_end_time = Some (9::int),
          matriculation_number = ''m'', campus_password = ''p'', calendar_url = ''u'',
          calendar_user = ''us'', calendar_pass = ''pw''\<rparr>"
  define self' where "self' = self\<lparr>priv_start_time := Some 7, priv_end_time := Some 8\<rparr>"
  have i: "init 0 ''m'' ''p'' ''u'' ''us'' ''pw'' (Some 5) (Some 9) = Inr self"
    by (simp add: init_both self_def timedelta_weeks_def)
  have a: "assign_all self [AssignStart 7, AssignEnd 8] = Inr self'"
    by (simp add: self_def self'_def set_start_time_def set_end_time_def
          start_time_def end_time_def)
  from window_ordered [OF i a] i a show ?thesis
    by (auto simp: self'_def self_def start_time_def end_time_def)
qed

section \<open>Steps in sequence\<close>

lemma then_do_eq:
  "then_do m f =
     (case fst m of Inl err \<Rightarrow> (Inl err, snd m) | Inr x \<Rightarrow> (fst (f x), snd m @ snd (f x)))"
  by (cases m; cases "fst m") (auto split: prod.splits)

lemma then_do_list_all:
  assumes "list_all P (snd m)"
    and "\<And>x. fst m = Inr x \<Longrightarrow> list_all P (snd (f x))"
  shows "list_all P (snd (then_do m f))"
  using assms by (cases m; cases "fst m") (auto split: prod.splits)

lemma is_mutation_simps [simp]:
  "is_mutation (EventDelete ev)" "is_mutation (AddEvent c x)"
  "\<not> is_mutation (Log l msg args)" "\<not> is_mutation (DateSearch c s e)"
  by (simp_all add: is_mutation_def)

section \<open>The events taken from the source\<close>

text \<open>
  C3. Of the top-level components of the parsed export, \<^verbatim>\<open>upload\<close> keeps those at the
  positions of events, in their order: as many as there are events (N), all of them events,
  and what it drops are the components at the other positions (M of them).
\<close>

theorem source_events_exact:
  "source_events cal =
     nths (subcomponents cal)
       {i. i < length (subcomponents cal) \<and> isinstance_Event (subcomponents cal ! i)} \<and>
   length (source_events cal) =
     card {i. i < length (subcomponents cal) \<and> isinstance_Event (subcomponents cal ! i)} \<and>
   length (subcomponents cal) - length (source_events cal) =
     card {i. i < length (subcomponents cal) \<and> \<not> isinstance_Event (subcomponents cal ! i)} \<and>
   list_all isinstance_Event (source_events cal) \<and>
   subseq (source_events cal) (subcomponents cal)"
proof -
  let ?cs = "subcomponents cal"
  let ?E = "{i. i < length ?cs \<and> isinstance_Event (?cs ! i)}"
  let ?D = "{i. i < length ?cs \<and> \<not> isinstance_Event (?cs ! i)}"
  have 1: "source_events cal = nths ?cs ?E"
    by (simp add: source_events_def filter_eq_nths)
  have 2: "length (source_events cal) = card ?E"
    by (simp add: source_events_def length_filter_conv_card)
  have "?E \<union> ?D = {..<length ?cs}" "?E \<inter> ?D = {}" by auto
  then have "card ?E + card ?D = length ?cs"
    by (metis card_Un_disjoint card_lessThan finite_Un finite_lessThan)
  with 2 have 3: "length ?cs - length (source_events cal) = card ?D" by simp
  have 4: "list_all isinstance_Event (source_events cal)"
    by (simp add: source_events_def list_all_iff)
  have 5: "subseq (source_events cal) ?cs"
    by (simp add: source_events_def)
  from 1 2 3 4 5 show ?thesis by blast
qed

lemma source_events_sample:
  "source_events sample_calendar = [Event ''Analysis'', Event ''Algebra'']"
  by (simp add: source_events_def sample_calendar_def)

section \<open>The destination calendar\<close>

lemma search_calendar_find:
  "search_calendar target cs =
     (case List.find (\<lambda>c. cal_url c = target) cs of
        Some c \<Rightarrow> (Inr c, [])
      | None \<Rightarrow> (Inl (NotFoundError ''Could not find calendar with given url''), []))"
  by (induction cs) (auto simp: ret_def raise_def)

text \<open>
  C6. When the destination lets the principal in and lists its calendars,
  \<^verbatim>\<open>_retrieve_upload_calendar\<close> returns the first calendar of the list whose address is
  the same string as the target, and raises NotFoundError when the list has none.
\<close>

theorem retrieve_upload_calendar_first_match:
  assumes "principal_connect w (calendar_url self) (calendar_user self) (calendar_pass self)
             = None"
    and "principal_calendars w = Inr cs"
  shows "fst (retrieve_upload_calendar w self) =
           (case List.find (\<lambda>c. cal_url c = calendar_url self) cs of
              Some c \<Rightarrow> Inr c
            | None \<Rightarrow> Inl (NotFoundError ''Could not find calendar with given url''))"
  using assms
  by (simp add: retrieve_upload_calendar_def connect_principal_def list_calendars_def
        log_info_def search_calendar_find split: option.splits)

theorem retrieve_upload_calendar_first_match_witness:
  "principal_connect sample_world ''https://x/cal/42'' ''user'' ''pw'' = None \<and>
   fst (retrieve_upload_calendar sample_world sample_uploader) = Inr lectures \<and>
   principal_connect no_such_calendar ''https://x/cal/42'' ''user'' ''pw'' = None \<and>
   fst (retrieve_upload_calendar no_such_calendar sample_uploader) =
     Inl (NotFoundError ''Could not find calendar with given url'')"
proof -
  have c1: "principal_connect sample_world (calendar_url sample_uploader)
              (calendar_user sample_uploader) (calendar_pass sample_uploader) = None"
    by (simp add: sample_world_def)
  have l1: "principal_calendars sample_world =
              Inr [CaldavCalendar ''https://x/cal/41'' ''private'', lectures,
                   CaldavCalendar ''https://x/cal/42'' ''copy'']"
    by (simp add: sample_world_def lectures_def)
  have c2: "principal_connect no_such_calendar (calendar_url sample_uploader)
              (calendar_user sample_uploader) (calendar_pass sample_uploader) = None"
    by (simp add: no_such_calendar_def sample_world_def)
  have l2: "principal_calendars no_such_calendar =
              Inr [CaldavCalendar ''https://x/cal/41'' ''a'',
                   CaldavCalendar ''https://x/cal/43'' ''b'']"
    by (simp add: no_such_calendar_def)
  from retrieve_upload_calendar_first_match [OF c1 l1]
       retrieve_upload_calendar_first_match [OF c2 l2]
  show ?thesis
    by (simp add: sample_uploader_def sample_world_def no_such_calendar_def lectures_def)
qed

section \<open>Replacing the events of the window\<close>

text \<open>
  C2. When the search for the existing events of the window raises, \<^verbatim>\<open>_upload_events\<close>
  raises that exception (ReportError from the library) after the search alone: nothing
  was deleted and nothing was inserted.
\<close>

theorem upload_events_query_fails:
  assumes "date_search w upload_cal (start_time self) (end_time self) = Inl err"
  shows "upload_events w self upload_cal events =
           (Inl err, [Log INFO ''Delete all existing events in given time period'' [],
                      DateSearch upload_cal (start_time self) (end_time self)]) \<and>
         \<not> (\<exists>a \<in> set (snd (upload_events w self upload_cal events)). is_mutation a)"
  using assms
  by (simp add: upload_events_def log_info_def do_date_search_def is_mutation_def)

theorem upload_events_query_fails_witness:
  "date_search report_fails lectures (start_time sample_uploader) (end_time sample_uploader) =
     Inl ReportError \<and>
   upload_events report_fails sample_uploader lectures [Event ''Analysis'', Event ''Algebra''] =
     (Inl ReportError, [Log INFO ''Delete all existing events in given time period'' [],
                        DateSearch lectures (Some 10) (Some 20)])"
proof -
  have q: "date_search report_fails lectures (start_time sample_uploader)
             (end_time sample_uploader) = Inl ReportError"
    by (simp add: report_fails_def)
  from upload_events_query_fails [OF q, of "[Event ''Analysis'', Event ''Algebra'']"] q
  show ?thesis
    by (simp add: sample_uploader_def start_time_def end_time_def)
qed

lemma delete_loop_mutations:
  "\<exists>k\<le>length evs.
     filter is_mutation (snd (delete_loop w n i evs)) = map EventDelete (take k evs) \<and>
     (fst (delete_loop w n i evs) = Inr () \<longrightarrow> k = length evs)"
proof (induction evs arbitrary: i)
  case Nil
  then show ?case by (simp add: ret_def)
next
  case (Cons ev evs)
  show ?case
  proof (cases "event_delete w i ev")
    case None
    from Cons [of "i + 1"] obtain k where k: "k \<le> length evs"
      "filter is_mutation (snd (delete_loop w n (i + 1) evs)) = map EventDelete (take k evs)"
      "fst (delete_loop w n (i + 1) evs) = Inr () \<longrightarrow> k = length evs"
      by blast
    with None have "Suc k \<le> length (ev # evs) \<and>
        filter is_mutation (snd (delete_loop w n i (ev # evs))) =
          map EventDelete (take (Suc k) (ev # evs)) \<and>
        (fst (delete_loop w n i (ev # evs)) = Inr () \<longrightarrow> Suc k = length (ev # evs))"
      by (simp add: then_do_eq log_info_def do_delete_def)
    then show ?thesis by blast
  next
    case (Some err)
    then have "Suc 0 \<le> length (ev # evs) \<and>
        filter is_mutation (snd (delete_loop w n i (ev # evs))) =
          map EventDelete (take (Suc 0) (ev # evs)) \<and>
        (fst (delete_loop w n i (ev # evs)) = Inr () \<longrightarrow> Suc 0 = length (ev # evs))"
      by (simp add: then_do_eq log_info_def do_delete_def)
    then show ?thesis by blast
  qed
qed

lemma delete_loop_raises:
  "j < length evs \<Longrightarrow> event_delete w (i + j) (evs ! j) \<noteq> None \<Longrightarrow>
   \<exists>err. fst (delete_loop w n i evs) = Inl err"
proof (induction evs arbitrary: i j)
  case Nil
  then show ?case by simp
next
  case (Cons ev evs)
  show ?case
  proof (cases "event_delete w i ev")
    case (Some err)
    then show ?thesis by (simp add: then_do_eq log_info_def do_delete_def)
  next
    case None
    with Cons.prems obtain j' where j': "j = Suc j'"
      by (cases j) auto
    with Cons.prems have "j' < length evs" "event_delete w ((i + 1) + j') (evs ! j') \<noteq> None"
      by auto
    from Cons.IH [OF this] None show ?thesis
      by (auto simp: then_do_eq log_info_def do_delete_def)
  qed
qed

lemma upload_loop_mutations:
  "\<exists>m\<le>length evs.
     filter is_mutation (snd (upload_loop w c n i evs)) =
       map (\<lambda>ev. AddEvent c (to_ical w (Calendar [ev]))) (take m evs) \<and>
     (fst (upload_loop w c n i evs) = Inr () \<longrightarrow> m = length evs)"
proof (induction evs arbitrary: i)
  case Nil
  then show ?case by (simp add: ret_def)
next
  case (Cons ev evs)
  let ?ins = "\<lambda>ev. AddEvent c (to_ical w (Calendar [ev]))"
  show ?case
  proof (cases "add_event w i c (to_ical w (Calendar [ev]))")
    case None
    from Cons [of "i + 1"] obtain m where m: "m \<le> length evs"
      "filter is_mutation (snd (upload_loop w c n (i + 1) evs)) = map ?ins (take m evs)"
      "fst (upload_loop w c n (i + 1) evs) = Inr () \<longrightarrow> m = length evs"
      by blast
    with None have "Suc m \<le> length (ev # evs) \<and>
        filter is_mutation (snd (upload_loop w c n i (ev # evs))) =
          map ?ins (take (Suc m) (ev # evs)) \<and>
        (fst (upload_loop w c n i (ev # evs)) = Inr () \<longrightarrow> Suc m = length (ev # evs))"
      by (simp add: then_do_eq log_info_def do_add_event_def)
    then show ?thesis by blast
  next
    case (Some err)
    then have "Suc 0 \<le> length (ev # evs) \<and>
        filter is_mutation (snd (upload_loop w c n i (ev # evs))) =
          map ?ins (take (Suc 0) (ev # evs)) \<and>
        (fst (upload_loop w c n i (ev # evs)) = Inr () \<longrightarrow> Suc 0 = length (ev # evs))"
      by (simp add: then_do_eq log_info_def do_add_event_def)
    then show ?thesis by blast
  qed
qed

text \<open>
  C1. After a search that returned the existing events, the deletions and insertions of
  \<^verbatim>\<open>_upload_events\<close> are: deletions of the first \<open>k\<close> returned events, in the order
  returned, and after them insertions of the first \<open>m\<close> fetched events. An insertion is
  there only when all returned events were deleted before it, and when any deletion
  raises, the operation raises and no insertion is made.
\<close>

theorem upload_events_deletes_first:
  assumes "date_search w c (start_time self) (end_time self) = Inr old"
  shows "\<exists>k m. k \<le> length old \<and> m \<le> length events \<and>
           filter is_mutation (snd (upload_events w self c events)) =
             map EventDelete (take k old) @
             map (\<lambda>ev. AddEvent c (to_ical w (Calendar [ev]))) (take m events) \<and>
           (0 < m \<longrightarrow> k = length old) \<and>
           ((\<exists>j<length old. event_delete w j (old ! j) \<noteq> None) \<longrightarrow>
              m = 0 \<and> (\<exists>err. fst (upload_events w self c events) = Inl err))"
proof -
  let ?ins = "\<lambda>ev. AddEvent c (to_ical w (Calendar [ev]))"
  let ?D = "delete_loop w (length old) 0 old"
  let ?U = "upload_loop w c (length events) 0 events"
  let ?R = "upload_events w self c events"
  obtain k where k: "k \<le> length old"
    "filter is_mutation (snd ?D) = map EventDelete (take k old)"
    "fst ?D = Inr () \<longrightarrow> k = length old"
    using delete_loop_mutations by blast
  obtain m where m: "m \<le> length events"
    "filter is_mutation (snd ?U) = map ?ins (take m events)"
    using upload_loop_mutations by blast
  have raises: "\<exists>err. fst ?D = Inl err"
    if "\<exists>j<length old. event_delete w j (old ! j) \<noteq> None"
    using that delete_loop_raises [of _ old w 0 "length old"] by auto
  show ?thesis
  proof (cases "fst ?D")
    case (Inl err)
    with assms k have
      "filter is_mutation (snd ?R) = map EventDelete (take k old) @ map ?ins (take 0 events)"
      "fst ?R = Inl err"
      by (simp_all add: upload_events_def then_do_eq log_info_def do_date_search_def)
    with k show ?thesis by - (rule exI [of _ k], rule exI [of _ 0], simp)
  next
    case (Inr u)
    have none: "\<not> (\<exists>j<length old. event_delete w j (old ! j) \<noteq> None)"
    proof
      assume "\<exists>j<length old. event_delete w j (old ! j) \<noteq> None"
      from raises [OF this] Inr show False by simp
    qed
    from Inr k have kl: "k = length old" by simp
    from Inr assms k m have
      "filter is_mutation (snd ?R) = map EventDelete (take k old) @ map ?ins (take m events)"
      by (simp add: upload_events_def then_do_eq log_info_def do_date_search_def)
    with k m kl none show ?thesis by - (rule exI [of _ k], rule exI [of _ m], auto)
  qed
qed

lemmas run_defs = log_info_def do_date_search_def do_delete_def do_add_event_def ret_def raise_def
  start_time_def end_time_def

theorem upload_events_deletes_first_witness:
  "date_search second_delete_fails lectures (start_time sample_uploader)
     (end_time sample_uploader) =
     Inr [CaldavEvent ''old-1'', CaldavEvent ''old-2'', CaldavEvent ''old-3''] \<and>
   event_delete second_delete_fails 1 (CaldavEvent ''old-2'') \<noteq> None \<and>
   filter is_mutation
     (snd (upload_events second_delete_fails sample_uploader lectures
             [Event ''Analysis'', Event ''Algebra''])) =
     [EventDelete (CaldavEvent ''old-1''), EventDelete (CaldavEvent ''old-2'')] \<and>
   fst (upload_events second_delete_fails sample_uploader lectures
          [Event ''Analysis'', Event ''Algebra'']) = Inl DeleteError \<and>
   date_search sample_world lectures (start_time sample_uploader) (end_time sample_uploader) =
     Inr [CaldavEvent ''old-1'', CaldavEvent ''old-2'', CaldavEvent ''old-3''] \<and>
   filter is_mutation
     (snd (upload_events sample_world sample_uploader lectures
             [Event ''Analysis'', Event ''Algebra''])) =
     [EventDelete (CaldavEvent ''old-1''), EventDelete (CaldavEvent ''old-2''),
      EventDelete (CaldavEvent ''old-3''),
      AddEvent lectures ''Analysis'', AddEvent lectures ''Algebra'']"
proof -
  let ?old = "[CaldavEvent ''old-1'', CaldavEvent ''old-2'', CaldavEvent ''old-3'']"
  let ?evs = "[Event ''Analysis'', Event ''Algebra'']"
  have q: "date_search second_delete_fails lectures (start_time sample_uploader)
             (end_time sample_uploader) = Inr ?old"
    by (simp add: second_delete_fails_def sample_world_def)
  have q': "date_search sample_world lectures (start_time sample_uploader)
             (end_time sample_uploader) = Inr ?old"
    by (simp add: sample_world_def)
  have d: "event_delete second_delete_fails 1 (CaldavEvent ''old-2'') \<noteq> None"
    by (simp add: second_delete_fails_def)
  have r: "upload_events second_delete_fails sample_uploader lectures ?evs =
      (Inl DeleteError,
       [Log INFO ''Delete all existing events in given time period'' [],
        DateSearch lectures (Some 10) (Some 20),
        Log INFO ''Delete event {index}/{num}'' [N 1, N 3],
        EventDelete (CaldavEvent ''old-1''),
        Log INFO ''Delete event {index}/{num}'' [N 2, N 3],
        EventDelete (CaldavEvent ''old-2'')])"
    by (simp add: upload_events_def second_delete_fails_def sample_world_def
          sample_uploader_def run_defs)
  have r': "upload_events sample_world sample_uploader lectures ?evs =
      (Inr (),
       [Log INFO ''Delete all existing events in given time period'' [],
        DateSearch lectures (Some 10) (Some 20),
        Log INFO ''Delete event {index}/{num}'' [N 1, N 3],
        EventDelete (CaldavEvent ''old-1''),
        Log INFO ''Delete event {index}/{num}'' [N 2, N 3],
        EventDelete (CaldavEvent ''old-2''),
        Log INFO ''Delete event {index}/{num}'' [N 3, N 3],
        EventDelete (CaldavEvent ''old-3''),
        Log INFO ''Upload all events'' [],
        Log INFO ''Upload event {index}/{num}'' [N 1, N 2],
        AddEvent lectures ''Analysis'',
        Log INFO ''Upload event {index}/{num}'' [N 2, N 2],
        AddEvent lectures ''Algebra''])"
    by (simp add: upload_events_def sample_world_def sample_uploader_def run_defs)
  from upload_events_deletes_first [OF q, of ?evs] upload_events_deletes_first [OF q', of ?evs]
    q q' d r r'
  show ?thesis by simp
qed

section \<open>Fetching from CampusOffice\<close>

lemmas fetch_defs = retrieve_source_calendar_def http_get_def http_post_def raise_for_status_def
  check_login_def format_cal_url_def parse_ical_def

text \<open>The test \<^verbatim>\<open>sub in s\<close> is the one of the library: \<open>sub\<close> occurs somewhere in \<open>s\<close>.\<close>

lemma startswith_prefix: "startswith s sub \<longleftrightarrow> prefix sub s"
  by (induction s sub rule: startswith.induct) auto

lemma str_contains_sublist: "str_contains sub s \<longleftrightarrow> sublist sub s"
  by (induction s) (auto simp: startswith_prefix sublist_Cons_right)

lemma str_contains_iff: "str_contains sub s \<longleftrightarrow> (\<exists>p q. s = p @ sub @ q)"
  by (simp add: str_contains_sublist sublist_def)

text \<open>
  C7, as stated, fails: the status of the login response is checked before its redirect
  target. A login response whose first redirect went to an address with
  \<^verbatim>\<open>loginfailed\<close> and whose final status is 500 makes \<^verbatim>\<open>_retrieve_source_calendar\<close>
  raise \<^verbatim>\<open>requests.HTTPError\<close>, a RequestException, not CampusOfficeAuthorizationError.
\<close>

theorem login_refused_500_counterexample:
  "session_post login_refused_500 LoginUrl [(''u'', ''123456''), (''p'', ''secret'')] =
     Inr (login_redirect 500 ''/office/default.asp?loginfailed=1'') \<and>
   hd (history (login_redirect 500 ''/office/default.asp?loginfailed=1'')) ''location'' =
     Some ''/office/default.asp?loginfailed=1'' \<and>
   str_contains ''loginfailed'' ''/office/default.asp?loginfailed=1'' \<and>
   retrieve_source_calendar login_refused_500 sample_uploader =
     (Inl (RequestException (HTTPError 500)),
      [Log INFO ''Fetch base page for session cookie'' [],
       SessionGet BaseUrl,
       Log INFO ''Validate session by logging in'' [],
       SessionPost LoginUrl [(''u'', ''123456''), (''p'', ''secret'')]]) \<and>
   fst (retrieve_source_calendar login_refused_500 sample_uploader) \<noteq>
     Inl CampusOfficeAuthorizationError"
  by (simp add: fetch_defs login_refused_500_def sample_world_def sample_uploader_def
        login_redirect_def ok_page_def run_defs)

text \<open>
  C7, amended. When the first redirect of the login response goes to an address that
  contains \<^verbatim>\<open>loginfailed\<close>, the export is never requested. When the base page and
  the login response both pass \<^verbatim>\<open>raise_for_status\<close>, what is raised is
  CampusOfficeAuthorizationError, right after the login request. When the base page passes
  and the final status of the login response is an HTTP error, what is raised instead is
  \<^verbatim>\<open>requests.HTTPError\<close> with that status, a RequestException, because the status is
  checked before the redirect target. CampusOfficeAuthorizationError is none of the
  RequestException ones.
\<close>

theorem login_refused_raises:
  assumes "session_post w LoginUrl
             [(''u'', matriculation_number self), (''p'', campus_password self)] = Inr req"
    and "history req = headers # redirects"
    and "headers ''location'' = Some location"
    and "str_contains ''loginfailed'' location"
  shows "(\<forall>s e. SessionGet (CalUrl s e) \<notin> set (snd (retrieve_source_calendar w self))) \<and>
         (\<forall>base. session_get w BaseUrl = Inr base \<and>
                 fst (raise_for_status base) = Inr () \<and>
                 fst (raise_for_status req) = Inr () \<longrightarrow>
            retrieve_source_calendar w self =
              (Inl CampusOfficeAuthorizationError,
               [Log INFO ''Fetch base page for session cookie'' [],
                SessionGet BaseUrl,
                Log INFO ''Validate session by logging in'' [],
                SessionPost LoginUrl
                  [(''u'', matriculation_number self), (''p'', campus_password self)]])) \<and>
         (\<forall>base. session_get w BaseUrl = Inr base \<and>
                 fst (raise_for_status base) = Inr () \<and>
                 400 \<le> status_code req \<and> status_code req < 600 \<longrightarrow>
            retrieve_source_calendar w self =
              (Inl (RequestException (HTTPError (status_code req))),
               [Log INFO ''Fetch base page for session cookie'' [],
                SessionGet BaseUrl,
                Log INFO ''Validate session by logging in'' [],
                SessionPost LoginUrl
                  [(''u'', matriculation_number self), (''p'', campus_password self)]])) \<and>
         (\<forall>r. CampusOfficeAuthorizationError \<noteq> RequestException r)"
proof -
  have 1: "\<forall>s e. SessionGet (CalUrl s e) \<notin> set (snd (retrieve_source_calendar w self))"
    using assms
    by (cases "session_get w BaseUrl")
       (auto simp: fetch_defs run_defs split: if_splits)
  have 2: "\<forall>base. session_get w BaseUrl = Inr base \<and>
                 fst (raise_for_status base) = Inr () \<and>
                 fst (raise_for_status req) = Inr () \<longrightarrow>
            retrieve_source_calendar w self =
              (Inl CampusOfficeAuthorizationError,
               [Log INFO ''Fetch base page for session cookie'' [],
                SessionGet BaseUrl,
                Log INFO ''Validate session by logging in'' [],
                SessionPost LoginUrl
                  [(''u'', matriculation_number self), (''p'', campus_password self)]])"
    using assms
    by (auto simp: fetch_defs run_defs split: if_splits)
  have 3: "\<forall>base. session_get w BaseUrl = Inr base \<and>
                 fst (raise_for_status base) = Inr () \<and>
                 400 \<le> status_code req \<and> status_code req < 600 \<longrightarrow>
            retrieve_source_calendar w self =
              (Inl (RequestException (HTTPError (status_code req))),
               [Log INFO ''Fetch base page for session cookie'' [],
                SessionGet BaseUrl,
                Log INFO ''Validate session by logging in'' [],
                SessionPost LoginUrl
                  [(''u'', matriculation_number self), (''p'', campus_password self)]])"
    using assms(1)
    by (auto simp: fetch_defs run_defs split: if_splits)
  show ?thesis using 1 2 3 by simp
qed

theorem login_refused_raises_witness:
  "session_post login_refused LoginUrl [(''u'', ''123456''), (''p'', ''secret'')] =
     Inr (login_redirect 200 ''/office/default.asp?loginfailed=1'') \<and>
   str_contains ''loginfailed'' ''/office/default.asp?loginfailed=1'' \<and>
   session_get login_refused BaseUrl = Inr ok_page \<and>
   fst (raise_for_status ok_page) = Inr () \<and>
   fst (raise_for_status (login_redirect 200 ''/office/default.asp?loginfailed=1'')) = Inr () \<and>
   retrieve_source_calendar login_refused sample_uploader =
     (Inl CampusOfficeAuthorizationError,
      [Log INFO ''Fetch base page for session cookie'' [],
       SessionGet BaseUrl,
       Log INFO ''Validate session by logging in'' [],
       SessionPost LoginUrl [(''u'', ''123456''), (''p'', ''secret'')]]) \<and>
   SessionGet (CalUrl 10 20) \<notin> set (snd (retrieve_source_calendar login_refused sample_uploader)) \<and>
   session_post login_refused_503 LoginUrl [(''u'', ''123456''), (''p'', ''secret'')] =
     Inr (login_redirect 503 ''/office/default.asp?loginfailed=1'') \<and>
   session_get login_refused_503 BaseUrl = Inr ok_page \<and>
   retrieve_source_calendar login_refused_503 sample_uploader =
     (Inl (RequestException (HTTPError 503)),
      [Log INFO ''Fetch base page for session cookie'' [],
       SessionGet BaseUrl,
       Log INFO ''Validate session by logging in'' [],
       SessionPost LoginUrl [(''u'', ''123456''), (''p'', ''secret'')]])"
proof -
  let ?loc = "''/office/default.asp?loginfailed=1''"
  have p: "session_post login_refused LoginUrl
             [(''u'', matriculation_number sample_uploader),
              (''p'', campus_password sample_uploader)] = Inr (login_redirect 200 ?loc)"
    by (simp add: login_refused_def)
  have h: "history (login_redirect 200 ?loc) = [''location'' \<mapsto> ?loc] # []"
    by (simp add: login_redirect_def)
  have l: "[''location'' \<mapsto> ?loc] ''location'' = Some ?loc"
    by simp
  have c: "str_contains ''loginfailed'' ?loc"
    by simp
  have b: "session_get login_refused BaseUrl = Inr ok_page"
    by (simp add: login_refused_def sample_world_def)
  have s: "fst (raise_for_status ok_page) = Inr ()"
     "fst (raise_for_status (login_redirect 200 ?loc)) = Inr ()"
    by (simp_all add: raise_for_status_def ok_page_def login_redirect_def ret_def)
  have p': "session_post login_refused_503 LoginUrl
             [(''u'', matriculation_number sample_uploader),
              (''p'', campus_password sample_uploader)] = Inr (login_redirect 503 ?loc)"
    by (simp add: login_refused_503_def)
  have h': "history (login_redirect 503 ?loc) = [''location'' \<mapsto> ?loc] # []"
    by (simp add: login_redirect_def)
  have b': "session_get login_refused_503 BaseUrl = Inr ok_page"
    by (simp add: login_refused_503_def sample_world_def)
  have s': "status_code (login_redirect 503 ?loc) = 503"
    by (simp add: login_redirect_def)
  from login_refused_raises [OF p h l c] login_refused_raises [OF p' h' l c]
    p c b s p' b' s' show ?thesis
    by (simp add: sample_uploader_def)
qed

text \<open>
  C8, as stated, fails: the logout request is sent without a handler around it. When the
  request itself raises (here the connection is gone), \<^verbatim>\<open>_retrieve_source_calendar\<close>
  raises that RequestException and the export it already holds is never parsed.
\<close>

theorem logout_down_counterexample:
  "session_get logout_down LogoutUrl = Inl ConnectionError \<and>
   retrieve_source_calendar logout_down sample_uploader =
     (Inl (RequestException ConnectionError),
      [Log INFO ''Fetch base page for session cookie'' [],
       SessionGet BaseUrl,
       Log INFO ''Validate session by logging in'' [],
       SessionPost LoginUrl [(''u'', ''123456''), (''p'', ''secret'')],
       Log INFO ''Retrieve calendar'' [],
       SessionGet (CalUrl 10 20),
       Log INFO ''Invalidating session by logging out'' [],
       SessionGet LogoutUrl]) \<and>
   FromIcal (body_text export_page) \<notin>
     set (snd (retrieve_source_calendar logout_down sample_uploader))"
  by (simp add: fetch_defs logout_down_def sample_world_def sample_uploader_def
        login_redirect_def ok_page_def export_page_def run_defs)

text \<open>
  C8, amended. Once the export has been retrieved, the answer to the logout request is
  not looked at: whatever response comes back, with whatever status,
  \<^verbatim>\<open>_retrieve_source_calendar\<close> goes on to parse the export and returns what the parser
  returns. Only a logout request that raises ends it, with that RequestException.
\<close>

theorem logout_response_ignored:
  assumes "session_get w BaseUrl = Inr base"
    and "fst (raise_for_status base) = Inr ()"
    and "session_post w LoginUrl
           [(''u'', matriculation_number self), (''p'', campus_password self)] = Inr login"
    and "fst (raise_for_status login) = Inr ()"
    and "fst (check_login login) = Inr ()"
    and "start_time self = Some s"
    and "end_time self = Some e"
    and "session_get w (CalUrl s e) = Inr req"
    and "fst (raise_for_status req) = Inr ()"
  shows "(\<forall>out. session_get w LogoutUrl = Inr out \<longrightarrow>
            retrieve_source_calendar w self =
              (from_ical w (body_text req),
               [Log INFO ''Fetch base page for session cookie'' [],
                SessionGet BaseUrl,
                Log INFO ''Validate session by logging in'' [],
                SessionPost LoginUrl
                  [(''u'', matriculation_number self), (''p'', campus_password self)],
                Log INFO ''Retrieve calendar'' [],
                SessionGet (CalUrl s e),
                Log INFO ''Invalidating session by logging out'' [],
                SessionGet LogoutUrl,
                Log INFO ''Parse calendar'' [],
                FromIcal (body_text req)])) \<and>
         (\<forall>err. session_get w LogoutUrl = Inl err \<longrightarrow>
            retrieve_source_calendar w self =
              (Inl (RequestException err),
               [Log INFO ''Fetch base page for session cookie'' [],
                SessionGet BaseUrl,
                Log INFO ''Validate session by logging in'' [],
                SessionPost LoginUrl
                  [(''u'', matriculation_number self), (''p'', campus_password self)],
                Log INFO ''Retrieve calendar'' [],
                SessionGet (CalUrl s e),
                Log INFO ''Invalidating session by logging out'' [],
                SessionGet LogoutUrl]))"
proof -
  from assms(2) have b: "raise_for_status base = (Inr (), [])"
    by (auto simp: raise_for_status_def raise_def ret_def split: if_splits)
  from assms(4) have l: "raise_for_status login = (Inr (), [])"
    by (auto simp: raise_for_status_def raise_def ret_def split: if_splits)
  from assms(9) have r: "raise_for_status req = (Inr (), [])"
    by (auto simp: raise_for_status_def raise_def ret_def split: if_splits)
  from assms(5) have c: "check_login login = (Inr (), [])"
    by (auto simp: check_login_def raise_def ret_def split: list.splits option.splits if_splits)
  show ?thesis
    using assms(1,3,6,7,8) b l r c
    by (simp add: retrieve_source_calendar_def http_get_def http_post_def
          format_cal_url_def parse_ical_def log_info_def ret_def)
qed

theorem logout_response_ignored_witness:
  "session_get logout_500 LogoutUrl = Inr \<lparr>status_code = 500, history = [], body_text = []\<rparr> \<and>
   retrieve_source_calendar logout_500 sample_uploader =
     (Inr sample_calendar,
      [Log INFO ''Fetch base page for session cookie'' [],
       SessionGet BaseUrl,
       Log INFO ''Validate session by logging in'' [],
       SessionPost LoginUrl [(''u'', ''123456''), (''p'', ''secret'')],
       Log INFO ''Retrieve calendar'' [],
       SessionGet (CalUrl 10 20),
       Log INFO ''Invalidating session by logging out'' [],
       SessionGet LogoutUrl,
       Log INFO ''Parse calendar'' [],
       FromIcal ''BEGIN:VCALENDAR''])"
proof -
  let ?login = "login_redirect 200 ''/office/default.asp''"
  have 1: "session_get logout_500 BaseUrl = Inr ok_page"
    by (simp add: logout_500_def)
  have 2: "fst (raise_for_status ok_page) = Inr ()"
    by (simp add: raise_for_status_def ok_page_def ret_def)
  have 3: "session_post logout_500 LoginUrl
             [(''u'', matriculation_number sample_uploader),
              (''p'', campus_password sample_uploader)] = Inr ?login"
    by (simp add: logout_500_def sample_world_def)
  have 4: "fst (raise_for_status ?login) = Inr ()"
    by (simp add: raise_for_status_def login_redirect_def ret_def)
  have 5: "fst (check_login ?login) = Inr ()"
    by (simp add: check_login_def login_redirect_def ret_def)
  have 6: "start_time sample_uploader = Some 10"
    by (simp add: start_time_def sample_uploader_def)
  have 7: "end_time sample_uploader = Some 20"
    by (simp add: end_time_def sample_uploader_def)
  have 8: "session_get logout_500 (CalUrl 10 20) = Inr export_page"
    by (simp add: logout_500_def)
  have 9: "fst (raise_for_status export_page) = Inr ()"
    by (simp add: raise_for_status_def export_page_def ret_def)
  have o: "session_get logout_500 LogoutUrl =
             Inr \<lparr>status_code = 500, history = [], body_text = []\<rparr>"
    by (simp add: logout_500_def)
  have f: "from_ical logout_500 (body_text export_page) = Inr sample_calendar"
    by (simp add: logout_500_def sample_world_def)
  from logout_response_ignored [OF 1 2 3 4 5 6 7 8 9] o f show ?thesis
    by (simp add: sample_uploader_def export_page_def)
qed

section \<open>The window that a run uses\<close>

lemma uses_window_simps [simp]:
  "uses_window self (Log l msg args)"
  "uses_window self (SessionGet BaseUrl)"
  "uses_window self (SessionGet LoginUrl)"
  "uses_window self (SessionGet LogoutUrl)"
  "uses_window self (SessionGet (CalUrl s e)) \<longleftrightarrow>
     start_time self = Some s \<and> end_time self = Some e"
  "uses_window self (SessionPost u vs)"
  "uses_window self (FromIcal txt)"
  "uses_window self (PrincipalConnect a b c)"
  "uses_window self PrincipalCalendars"
  "uses_window self (DateSearch cal x y) \<longleftrightarrow> x = start_time self \<and> y = end_time self"
  "uses_window self (EventDelete ev)"
  "uses_window self (AddEvent cal ical)"
  "uses_window self (ConfigRead f)"
  by (simp_all add: uses_window_def)

lemma retrieve_source_calendar_window:
  "list_all (uses_window self) (snd (retrieve_source_calendar w self))"
  unfolding retrieve_source_calendar_def
  by (intro then_do_list_all)
     (auto simp: log_info_def raise_for_status_def ret_def raise_def http_post_def http_get_def
        check_login_def format_cal_url_def parse_ical_def
        split: sum.splits list.splits option.splits)

lemma search_calendar_trace: "snd (search_calendar target cs) = []"
  by (induction cs) (simp_all add: ret_def raise_def)

lemma retrieve_upload_calendar_window:
  "list_all (uses_window self) (snd (retrieve_upload_calendar w self))"
  unfolding retrieve_upload_calendar_def
  by (intro then_do_list_all)
     (simp_all add: log_info_def connect_principal_def list_calendars_def search_calendar_trace)

lemma delete_loop_window: "list_all (uses_window self) (snd (delete_loop w n i evs))"
proof (induction evs arbitrary: i)
  case Nil
  then show ?case by (simp add: ret_def)
next
  case (Cons ev evs)
  show ?case
    unfolding delete_loop.simps
    by (intro then_do_list_all Cons) (simp_all add: log_info_def do_delete_def split: option.splits)
qed

lemma upload_loop_window: "list_all (uses_window self) (snd (upload_loop w c n i evs))"
proof (induction evs arbitrary: i)
  case Nil
  then show ?case by (simp add: ret_def)
next
  case (Cons ev evs)
  show ?case
    unfolding upload_loop.simps
    by (intro then_do_list_all Cons)
       (simp_all add: log_info_def do_add_event_def split: option.splits)
qed

lemma upload_events_window:
  "list_all (uses_window self) (snd (upload_events w self c evs))"
  unfolding upload_events_def
  by (intro then_do_list_all delete_loop_window upload_loop_window)
     (simp_all add: log_info_def do_date_search_def)

lemma upload_window: "list_all (uses_window self) (snd (upload w self))"
  unfolding upload_def
  by (intro then_do_list_all retrieve_source_calendar_window retrieve_upload_calendar_window
        upload_events_window)

lemma upload_sample:
  "upload sample_world
     \<lparr>priv_start_time = Some s, priv_end_time = Some e,
      matriculation_number = ''123456'', campus_password = ''secret'',
      calendar_url = ''https://x/cal/42'', calendar_user = ''user'', calendar_pass = ''pw''\<rparr> =
   (Inr (),
    [Log INFO ''Fetch base page for session cookie'' [],
     SessionGet BaseUrl,
     Log INFO ''Validate session by logging in'' [],
     SessionPost LoginUrl [(''u'', ''123456''), (''p'', ''secret'')],
     Log INFO ''Retrieve calendar'' [],
     SessionGet (CalUrl s e),
     Log INFO ''Invalidating session by logging out'' [],
     SessionGet LogoutUrl,
     Log INFO ''Parse calendar'' [],
     FromIcal ''BEGIN:VCALENDAR'',
     PrincipalConnect ''https://x/cal/42'' ''user'' ''pw'',
     Log INFO ''Search for caldav calendar'' [],
     PrincipalCalendars,
     Log INFO ''Delete all existing events in given time period'' [],
     DateSearch lectures (Some s) (Some e),
     Log INFO ''Delete event {index}/{num}'' [N 1, N 3],
     EventDelete (CaldavEvent ''old-1''),
     Log INFO ''Delete event {index}/{num}'' [N 2, N 3],
     EventDelete (CaldavEvent ''old-2''),
     Log INFO ''Delete event {index}/{num}'' [N 3, N 3],
     EventDelete (CaldavEvent ''old-3''),
     Log INFO ''Upload all events'' [],
     Log INFO ''Upload event {index}/{num}'' [N 1, N 2],
     AddEvent lectures ''Analysis'',
     Log INFO ''Upload event {index}/{num}'' [N 2, N 2],
     AddEvent lectures ''Algebra''])"
  by (simp add: upload_def fetch_defs retrieve_upload_calendar_def connect_principal_def
        list_calendars_def upload_events_def source_events_def sample_world_def
        sample_calendar_def login_redirect_def ok_page_def export_page_def lectures_def run_defs)

text \<open>
  C10. Constructed without bounds, the object has the window from one week before today
  to 27 weeks after today, which is in order; and in any run of \<^verbatim>\<open>upload\<close> on it,
  every export request and every search of the destination carries these two bounds.
\<close>

theorem default_window:
  "\<exists>self. init t m p u us pw None None = Inr self \<and>
     start_time self = Some (t - timedelta_weeks 1) \<and>
     end_time self = Some (t + timedelta_weeks 27) \<and>
     t - timedelta_weeks 1 \<le> t + timedelta_weeks 27 \<and>
     (\<forall>w. \<forall>a \<in> set (snd (upload w self)).
        (\<forall>s e. a = SessionGet (CalUrl s e) \<longrightarrow>
           s = t - timedelta_weeks 1 \<and> e = t + timedelta_weeks 27) \<and>
        (\<forall>c s e. a = DateSearch c s e \<longrightarrow>
           s = Some (t - timedelta_weeks 1) \<and> e = Some (t + timedelta_weeks 27)))"
proof -
  define self where "self =
    \<lparr>priv_start_time = Some (t + timedelta_weeks (- 1)),
     priv_end_time = Some (t + timedelta_weeks 27),
     matriculation_number = m, campus_password = p, calendar_url = u,
     calendar_user = us, calendar_pass = pw\<rparr>"
  have i: "init t m p u us pw None None = Inr self"
    by (simp add: init_neither self_def)
  have s: "start_time self = Some (t - timedelta_weeks 1)"
    by (simp add: start_time_def self_def timedelta_weeks_def)
  have e: "end_time self = Some (t + timedelta_weeks 27)"
    by (simp add: end_time_def self_def)
  have o: "t - timedelta_weeks 1 \<le> t + timedelta_weeks 27"
    by (simp add: timedelta_weeks_def)
  have win: "uses_window self a" if "a \<in> set (snd (upload w self))" for w a
    using upload_window [of self w] that by (simp add: list_all_iff)
  have g: "s' = t - timedelta_weeks 1 \<and> e' = t + timedelta_weeks 27"
    if "SessionGet (CalUrl s' e') \<in> set (snd (upload w self))" for w s' e'
    using win [OF that] s e by simp
  have d: "s' = Some (t - timedelta_weeks 1) \<and> e' = Some (t + timedelta_weeks 27)"
    if "DateSearch c s' e' \<in> set (snd (upload w self))" for w c s' e'
    using win [OF that] s e by simp
  have "\<forall>w. \<forall>a \<in> set (snd (upload w self)).
        (\<forall>s e. a = SessionGet (CalUrl s e) \<longrightarrow>
           s = t - timedelta_weeks 1 \<and> e = t + timedelta_weeks 27) \<and>
        (\<forall>c s e. a = DateSearch c s e \<longrightarrow>
           s = Some (t - timedelta_weeks 1) \<and> e = Some (t + timedelta_weeks 27))"
    using g d by blast
  with i s e o show ?thesis by blast
qed

theorem default_window_witness:
  "\<exists>self. init 0 ''123456'' ''secret'' ''https://x/cal/42'' ''user'' ''pw'' None None = Inr self \<and>
     start_time self = Some (- 604800000000) \<and>
     end_time self = Some 16329600000000 \<and>
     SessionGet (CalUrl (- 604800000000) 16329600000000) \<in> set (snd (upload sample_world self)) \<and>
     DateSearch lectures (Some (- 604800000000)) (Some 16329600000000)
       \<in> set (snd (upload sample_world self))"
proof -
  from default_window [of 0 "''123456''" "''secret''" "''https://x/cal/42''" "''user''" "''pw''"]
  obtain self where
    i: "init 0 ''123456'' ''secret'' ''https://x/cal/42'' ''user'' ''pw'' None None = Inr self"
    and s: "start_time self = Some (0 - timedelta_weeks 1)"
    and e: "end_time self = Some (0 + timedelta_weeks 27)"
    by blast
  from i have self: "self =
    \<lparr>priv_start_time = Some (- 604800000000), priv_end_time = Some 16329600000000,
     matriculation_number = ''123456'', campus_password = ''secret'',
     calendar_url = ''https://x/cal/42'', calendar_user = ''user'', calendar_pass = ''pw''\<rparr>"
    by (simp add: init_neither timedelta_weeks_def)
  have "SessionGet (CalUrl (- 604800000000) 16329600000000) \<in> set (snd (upload sample_world self))"
    "DateSearch lectures (Some (- 604800000000)) (Some 16329600000000)
       \<in> set (snd (upload sample_world self))"
    unfolding self upload_sample by simp_all
  with i s e show ?thesis
    by (auto simp: timedelta_weeks_def)
qed

section \<open>The script and its except clauses\<close>

lemmas main_defs = main_def main_try_def do_config_read_def config_get_def read_period_def
  construct_def do_strptime_def

text \<open>The error kinds that the script has a clause for.\<close>

lemma except_clauses_taxonomy:
  "except_clauses err \<noteq> None \<longleftrightarrow>
     (\<exists>opt sec. err = NoOptionError opt sec) \<or> (\<exists>r. err = RequestException r) \<or>
     err = CampusOfficeAuthorizationError \<or> err = AuthorizationError \<or>
     (\<exists>m. err = NotFoundError m) \<or> err = ReportError \<or> err = DeleteError \<or>
     err = PutError \<or> (\<exists>m. err = ValueError m)"
  by (cases err) simp_all

lemma except_clauses_error_line: "except_clauses err = Some line \<Longrightarrow> is_error_line line"
  by (cases err) auto

lemma retrieve_source_calendar_info:
  "list_all (\<lambda>a. \<not> is_error_line a) (snd (retrieve_source_calendar w self))"
  unfolding retrieve_source_calendar_def
  by (intro then_do_list_all)
     (auto simp: log_info_def raise_for_status_def ret_def raise_def http_post_def http_get_def
        check_login_def format_cal_url_def parse_ical_def
        split: sum.splits list.splits option.splits)

lemma retrieve_upload_calendar_info:
  "list_all (\<lambda>a. \<not> is_error_line a) (snd (retrieve_upload_calendar w self))"
  unfolding retrieve_upload_calendar_def
  by (intro then_do_list_all)
     (simp_all add: log_info_def connect_principal_def list_calendars_def search_calendar_trace)

lemma delete_loop_info: "list_all (\<lambda>a. \<not> is_error_line a) (snd (delete_loop w n i evs))"
proof (induction evs arbitrary: i)
  case Nil
  then show ?case by (simp add: ret_def)
next
  case (Cons ev evs)
  show ?case
    unfolding delete_loop.simps
    by (intro then_do_list_all Cons) (simp_all add: log_info_def do_delete_def split: option.splits)
qed

lemma upload_loop_info: "list_all (\<lambda>a. \<not> is_error_line a) (snd (upload_loop w c n i evs))"
proof (induction evs arbitrary: i)
  case Nil
  then show ?case by (simp add: ret_def)
next
  case (Cons ev evs)
  show ?case
    unfolding upload_loop.simps
    by (intro then_do_list_all Cons)
       (simp_all add: log_info_def do_add_event_def split: option.splits)
qed

lemma upload_events_info:
  "list_all (\<lambda>a. \<not> is_error_line a) (snd (upload_events w self c evs))"
  unfolding upload_events_def
  by (intro then_do_list_all delete_loop_info upload_loop_info)
     (simp_all add: log_info_def do_date_search_def)

lemma upload_info: "list_all (\<lambda>a. \<not> is_error_line a) (snd (upload w self))"
  unfolding upload_def
  by (intro then_do_list_all retrieve_source_calendar_info retrieve_upload_calendar_info
        upload_events_info)

lemma read_period_info: "list_all (\<lambda>a. \<not> is_error_line a) (snd (read_period w cfg))"
  unfolding read_period_def
  by (auto intro!: then_do_list_all
        simp: config_get_def do_strptime_def ret_def raise_def split: option.splits)

lemma main_try_info: "list_all (\<lambda>a. \<not> is_error_line a) (snd (main_try w config_file))"
  unfolding main_try_def
  by (intro then_do_list_all read_period_info)
     (auto simp: do_config_read_def config_get_def construct_def ret_def raise_def
        split: option.splits intro!: then_do_list_all upload_info)

text \<open>
  Whatever the body of the \<^verbatim>\<open>try\<close> raises, if a clause matches it, the script logs that
  clause's line, the only line of level ERROR of the run, and ends without an exception.
\<close>

lemma main_reports_caught_error:
  assumes "length argv = 2"
    and "fst (main_try w (argv ! 1)) = Inl err"
    and "except_clauses err = Some line"
  shows "main w argv = (None, snd (main_try w (argv ! 1)) @ [line]) \<and>
         filter is_error_line (snd (main w argv)) = [line]"
proof -
  have m: "main w argv = (None, snd (main_try w (argv ! 1)) @ [line])"
    using assms by (cases "main_try w (argv ! 1)") (simp add: main_def)
  have "filter is_error_line (snd (main_try w (argv ! 1))) = []"
    using main_try_info [of w "argv ! 1"] by (simp add: list_all_iff filter_empty_conv)
  with m assms(3) show ?thesis
    by (simp add: except_clauses_error_line)
qed

text \<open>A required option missing from its section is reported before anything is sent.\<close>

lemma main_missing_option_reported:
  "main no_campus_pass [''cacaluploader.py'', ''uploader.cfg''] =
     (None,
      [ConfigRead ''uploader.cfg'',
       Log ERROR ''Could not load config from file: %s''
         [E (NoOptionError ''pass'' ''CampusOffice'')]])"
  by (simp add: main_defs no_campus_pass_def ret_def raise_def)

text \<open>
  C9. The clauses cover the kinds of the taxonomy (\<open>except_clauses_taxonomy\<close>,
  \<open>main_reports_caught_error\<close>), and a missing option is reported before any request
  (\<open>main_missing_option_reported\<close>). But a configuration that lacks a whole required
  section, as a file without \<^verbatim>\<open>[CampusOffice]\<close> or a path that does not exist, makes
  \<^verbatim>\<open>config.get\<close> raise NoSectionError, for which there is no clause: the exception
  leaves the script and no line of level ERROR is logged.
\<close>

theorem main_missing_section_not_caught:
  "main no_campus_section [''cacaluploader.py'', ''uploader.cfg''] =
     (Some (NoSectionError ''CampusOffice''), [ConfigRead ''uploader.cfg'']) \<and>
   filter is_error_line (snd (main no_campus_section [''cacaluploader.py'', ''uploader.cfg''])) = []"
  by (simp add: main_defs no_campus_section_def ret_def raise_def)

section \<open>A whole run\<close>

lemma retrieve_source_calendar_no_mutation:
  "filter is_mutation (snd (retrieve_source_calendar w self)) = []"
proof -
  have "list_all (\<lambda>a. \<not> is_mutation a) (snd (retrieve_source_calendar w self))"
    unfolding retrieve_source_calendar_def
    by (intro then_do_list_all)
       (auto simp: log_info_def raise_for_status_def ret_def raise_def http_post_def
          http_get_def check_login_def format_cal_url_def parse_ical_def is_mutation_def
          split: sum.splits list.splits option.splits)
  then show ?thesis by (simp add: list_all_iff filter_empty_conv)
qed

lemma retrieve_upload_calendar_no_mutation:
  "filter is_mutation (snd (retrieve_upload_calendar w self)) = []"
proof -
  have "list_all (\<lambda>a. \<not> is_mutation a) (snd (retrieve_upload_calendar w self))"
    unfolding retrieve_upload_calendar_def
    by (intro then_do_list_all)
       (simp_all add: log_info_def connect_principal_def list_calendars_def
          search_calendar_trace is_mutation_def)
  then show ?thesis by (simp add: list_all_iff filter_empty_conv)
qed

lemma upload_events_success:
  assumes "fst (upload_events w self c events) = Inr ()"
  shows "\<exists>old. date_search w c (start_time self) (end_time self) = Inr old \<and>
           filter is_mutation (snd (upload_events w self c events)) =
             map EventDelete old @
             map (\<lambda>ev. AddEvent c (to_ical w (Calendar [ev]))) events"
proof (cases "date_search w c (start_time self) (end_time self)")
  case (Inl err)
  with assms show ?thesis
    by (simp add: upload_events_def log_info_def do_date_search_def)
next
  case (Inr old)
  let ?D = "delete_loop w (length old) 0 old"
  let ?U = "upload_loop w c (length events) 0 events"
  from assms Inr have d: "fst ?D = Inr ()"
    by (cases "fst ?D")
       (simp_all add: upload_events_def then_do_eq log_info_def do_date_search_def)
  with assms Inr have u: "fst ?U = Inr ()"
    by (simp add: upload_events_def then_do_eq log_info_def do_date_search_def)
  from d delete_loop_mutations [of old w "length old" 0]
  have dm: "filter is_mutation (snd ?D) = map EventDelete old" by auto
  from u upload_loop_mutations [of events w c "length events" 0]
  have um: "filter is_mutation (snd ?U) =
              map (\<lambda>ev. AddEvent c (to_ical w (Calendar [ev]))) events" by auto
  from Inr d dm um show ?thesis
    by (simp add: upload_events_def then_do_eq log_info_def do_date_search_def)
qed

text \<open>
  A run of \<^verbatim>\<open>upload\<close> that ends without an exception has deleted every event that the
  destination had in the window and then inserted the events of the export, each as a
  calendar of its own, in the order of the export.
\<close>

lemma upload_replaces:
  assumes "fst (upload w self) = Inr ()"
  shows "\<exists>cal c old.
           fst (retrieve_source_calendar w self) = Inr cal \<and>
           fst (retrieve_upload_calendar w self) = Inr c \<and>
           date_search w c (start_time self) (end_time self) = Inr old \<and>
           filter is_mutation (snd (upload w self)) =
             map EventDelete old @
             map (\<lambda>ev. AddEvent c (to_ical w (Calendar [ev]))) (source_events cal)"
proof -
  from assms obtain cal where cal: "fst (retrieve_source_calendar w self) = Inr cal"
    by (cases "fst (retrieve_source_calendar w self)") (simp_all add: upload_def then_do_eq)
  with assms obtain c where c: "fst (retrieve_upload_calendar w self) = Inr c"
    by (cases "fst (retrieve_upload_calendar w self)") (simp_all add: upload_def then_do_eq)
  from assms cal c have e: "fst (upload_events w self c (source_events cal)) = Inr ()"
    by (simp add: upload_def then_do_eq)
  from upload_events_success [OF e] obtain old where
    old: "date_search w c (start_time self) (end_time self) = Inr old"
    and m: "filter is_mutation (snd (upload_events w self c (source_events cal))) =
             map EventDelete old @
             map (\<lambda>ev. AddEvent c (to_ical w (Calendar [ev]))) (source_events cal)"
    by blast
  from cal c m have "filter is_mutation (snd (upload w self)) =
             map EventDelete old @
             map (\<lambda>ev. AddEvent c (to_ical w (Calendar [ev]))) (source_events cal)"
    by (simp add: upload_def then_do_eq retrieve_source_calendar_no_mutation
          retrieve_upload_calendar_no_mutation)
  with cal c old show ?thesis by blast
qed

end
